theory Spec2Isabelle
  imports Complex_Main "HOL-Library.Sublist" "HOL-Library.Log_Nat"
begin

section \<open>JavaScript values as the handlers see them\<close>

text \<open>
  The handlers work on parsed JSON (\<^verbatim>\<open>req.body\<close>, \<^verbatim>\<open>req.query\<close>, the \<^verbatim>\<open>data\<close> of an axios
  response), so every field may hold any JSON value or be absent (\<^verbatim>\<open>undefined\<close>).
  A JavaScript number is an IEEE-754 double: \<^verbatim>\<open>NaN\<close>, an infinity, or a finite double, given by
  its exact value, a rational. The two zeros are one value here; the handlers cannot tell them
  apart (both are falsy, both \<open>\<le> 0\<close>, both print as 0).
  An object is the list of its own properties; where a name occurs twice the first occurrence
  is the property.
\<close>

datatype number = NaN | PosInfinity | NegInfinity | Num rat

datatype jsval =
    JUndefined
  | JNull
  | JBool bool
  | JNumber number
  | JString string
  | JArray "jsval list"
  | JObject "(string \<times> jsval) list"

datatype error = TypeError

text \<open>\<^verbatim>\<open>!v\<close> is \<open>\<not> truthy v\<close>: the falsy values are undefined, null, false, 0, NaN and "".\<close>

fun truthy :: "jsval \<Rightarrow> bool" where
  "truthy JUndefined = False"
| "truthy JNull = False"
| "truthy (JBool b) = b"
| "truthy (JNumber NaN) = False"
| "truthy (JNumber PosInfinity) = True"
| "truthy (JNumber NegInfinity) = True"
| "truthy (JNumber (Num r)) = (r \<noteq> 0)"
| "truthy (JString s) = (s \<noteq> [])"
| "truthy (JArray xs) = True"
| "truthy (JObject kvs) = True"

text \<open>
  \<^verbatim>\<open>v.k\<close> for the property names the handlers read (userId, items, bookId, quantity, price,
  status), none of which is a property of a built-in prototype: reading from undefined or null
  throws a TypeError, an object parsed from JSON yields its own property or undefined, every
  other value yields undefined.
\<close>

fun get_prop :: "jsval \<Rightarrow> string \<Rightarrow> error + jsval" where
  "get_prop JUndefined k = Inl TypeError"
| "get_prop JNull k = Inl TypeError"
| "get_prop (JObject kvs) k = Inr (case map_of kvs k of None \<Rightarrow> JUndefined | Some v \<Rightarrow> v)"
| "get_prop v k = Inr JUndefined"

text \<open>
  \<^verbatim>\<open>a === b\<close>. Arrays and objects are compared by reference; the two sides of every comparison
  in the handlers come from different requests (or from a literal), so they are never the same
  reference.
\<close>

fun strict_eq :: "jsval \<Rightarrow> jsval \<Rightarrow> bool" where
  "strict_eq JUndefined JUndefined = True"
| "strict_eq JNull JNull = True"
| "strict_eq (JBool a) (JBool b) = (a = b)"
| "strict_eq (JNumber a) (JNumber b) = (a \<noteq> NaN \<and> a = b)"
| "strict_eq (JString a) (JString b) = (a = b)"
| "strict_eq a b = False"

section \<open>What a handler gets from outside its code\<close>

text \<open>
  The outcome of one \<^verbatim>\<open>await axios.get(url)\<close>: the promise is rejected (network error, timeout,
  a status outside 2xx, or an exception while the call is set up), or it resolves with a
  response whose \<^verbatim>\<open>data\<close> is some value. The environment fixes the outcome of each call, not
  of each URL, so a service may answer two calls for one URL differently. (The URLs of the
  source are single-quoted strings, the same for every user and every book; nothing below
  depends on them.)
\<close>

datatype outcome = Rejected | Resolved jsval

text \<open>
  The environment of one request to the orders router:
  \<^item> \<open>to_number_rt\<close>: the runtime's ToNumber on strings, arrays and objects (ToPrimitive followed
    by the string-to-number grammar); \<open>None\<close> when the conversion throws a TypeError, as it does
    for an object whose own \<^verbatim>\<open>valueOf\<close> and \<^verbatim>\<open>toString\<close> are not callable;
  \<^item> \<open>users_service\<close>: the outcome of the one lookup at the users service;
  \<^item> \<open>books_service i\<close>: the outcome of the lookup at the books service made in iteration \<open>i\<close>
    of the item loop;
  \<^item> \<open>uuidv4\<close>, \<open>now\<close>: the results of \<^verbatim>\<open>uuidv4()\<close> and \<^verbatim>\<open>new Date().toISOString()\<close>.
\<close>

record env =
  to_number_rt :: "jsval \<Rightarrow> number option"
  users_service :: outcome
  books_service :: "nat \<Rightarrow> outcome"
  uuidv4 :: string
  now :: string

fun ToNumber :: "env \<Rightarrow> jsval \<Rightarrow> number option" where
  "ToNumber e JUndefined = Some NaN"
| "ToNumber e JNull = Some (Num 0)"
| "ToNumber e (JBool b) = Some (Num (if b then 1 else 0))"
| "ToNumber e (JNumber n) = Some n"
| "ToNumber e v = to_number_rt e v"

text \<open>\<^verbatim>\<open>v <= 0\<close>: false when the number is NaN; \<open>None\<close> when the conversion throws.\<close>

definition le_zero :: "env \<Rightarrow> jsval \<Rightarrow> bool option" where
  "le_zero e v = (case ToNumber e v of
       None \<Rightarrow> None
     | Some NaN \<Rightarrow> Some False
     | Some PosInfinity \<Rightarrow> Some False
     | Some NegInfinity \<Rightarrow> Some True
     | Some (Num r) \<Rightarrow> Some (r \<le> 0))"

subsection \<open>Double arithmetic\<close>

text \<open>
  The integer \<open>k\<close> with \<open>2 powi k \<le> a < 2 powi (k + 1)\<close> for a positive rational \<open>a\<close>, from the bit
  lengths of numerator and denominator.
\<close>

definition ilog2 :: "rat \<Rightarrow> int" where
  "ilog2 a = (let (p, q) = quotient_of a; k = bitlen p - bitlen q
              in if 2 powi k \<le> a then k else k - 1)"

text \<open>The nearest integer, a tie going to the even one.\<close>

definition round_half_even :: "rat \<Rightarrow> int" where
  "round_half_even x =
     (let f = \<lfloor>x\<rfloor>; d = x - of_int f
      in if d < 1 / 2 then f else if 1 / 2 < d then f + 1 else if even f then f else f + 1)"

text \<open>
  The double that an operation with the exact result \<open>x\<close> returns, and that a numeric literal
  with the value \<open>x\<close> denotes: \<open>x\<close> rounded to 53 significant bits, to nearest, a tie going to
  the even significand. Below 2^(-1022) the spacing stays 2^(-1074) (subnormal numbers); a
  result that rounds to 2^1024 or more is an infinity.
\<close>

definition round_double :: "rat \<Rightarrow> number" where
  "round_double x =
     (if x = 0 then Num 0
      else let a = \<bar>x\<bar>;
               e = max (ilog2 a) (- 1022);
               n = round_half_even (a / 2 powi (e - 52))
           in if 1023 < e \<or> (e = 1023 \<and> n = 2 ^ 53)
              then (if 0 < x then PosInfinity else NegInfinity)
              else Num (sgn x * of_int n * 2 powi (e - 52)))"

text \<open>The sign of a number that is not NaN: 1, 0 or -1.\<close>

fun sign :: "number \<Rightarrow> rat" where
  "sign NaN = 0"
| "sign PosInfinity = 1"
| "sign NegInfinity = - 1"
| "sign (Num a) = sgn a"

text \<open>\<^verbatim>\<open>x * y\<close> on numbers: infinity times zero is NaN.\<close>

fun js_mul :: "number \<Rightarrow> number \<Rightarrow> number" where
  "js_mul (Num a) (Num b) = round_double (a * b)"
| "js_mul x y =
     (if x = NaN \<or> y = NaN \<or> sign x = 0 \<or> sign y = 0 then NaN
      else if 0 < sign x * sign y then PosInfinity else NegInfinity)"

text \<open>\<^verbatim>\<open>x + y\<close> on numbers: the sum of the two infinities of opposite sign is NaN.\<close>

fun js_add :: "number \<Rightarrow> number \<Rightarrow> number" where
  "js_add (Num a) (Num b) = round_double (a + b)"
| "js_add NaN y = NaN"
| "js_add x NaN = NaN"
| "js_add PosInfinity y = (if y = NegInfinity then NaN else PosInfinity)"
| "js_add NegInfinity y = (if y = PosInfinity then NaN else NegInfinity)"
| "js_add (Num a) y = y"

text \<open>
  \<^verbatim>\<open>x.toFixed(2)\<close> as a number, for a finite \<open>x\<close> below 10^21 in absolute value: for \<open>x \<ge> 0\<close> the
  integer \<open>n\<close> for which \<open>n / 100 - x\<close> is closest to zero, the larger one of two, divided by
  100; a negative \<open>x\<close> is negated first and the sign put back.
\<close>

definition toFixed2 :: "rat \<Rightarrow> rat" where
  "toFixed2 x =
     (let a = \<bar>x\<bar> * 100;
          n = \<lfloor>a\<rfloor>;
          m = (if a - of_int n < of_int (n + 1) - a then n else n + 1)
      in if x < 0 then - (of_int m / 100) else of_int m / 100)"

text \<open>
  \<^verbatim>\<open>Number.parseFloat(x.toFixed(2))\<close>: parseFloat reads the printed decimal back as a double.
  From 10^21 on, and for NaN and the infinities, toFixed prints the number itself, which
  parseFloat reads back unchanged.
\<close>

fun parseFloat_toFixed2 :: "number \<Rightarrow> number" where
  "parseFloat_toFixed2 (Num x) = (if 10 ^ 21 \<le> \<bar>x\<bar> then Num x else round_double (toFixed2 x))"
| "parseFloat_toFixed2 x = x"

section \<open>The order store\<close>

record order_line =
  bookId :: jsval
  quantity :: jsval
  price :: jsval

record order =
  order_id :: string
  userId :: jsval
  items :: "order_line list"
  totalAmount :: number
  status :: jsval
  createdAt :: string

datatype body =
    ErrorBody string nat
  | OrderBody order
  | ListBody "order list"
  | MessageBody string order

type_synonym response = "nat \<times> body"

text \<open>What a handler does besides answering and changing the store, in the order it does it.\<close>

datatype event =
    UserLookup jsval
  | BookLookup jsval
  | ConsoleLog string
  | ConsoleError string

fun findIndex :: "('a \<Rightarrow> bool) \<Rightarrow> 'a list \<Rightarrow> nat option" where
  "findIndex P [] = None"
| "findIndex P (x # xs) = (if P x then Some 0 else map_option Suc (findIndex P xs))"

definition validStatuses :: "string list" where
  "validStatuses = [''pending'', ''confirmed'', ''shipped'', ''delivered'', ''cancelled'']"

text \<open>\<^verbatim>\<open>validStatuses.includes(v)\<close>.\<close>

definition array_includes :: "string list \<Rightarrow> jsval \<Rightarrow> bool" where
  "array_includes xs v = list_ex (\<lambda>x. strict_eq (JString x) v) xs"

text \<open>
  The store when the module is loaded (lines 7 to 19); the identifier and the time stamp of the
  one order come from \<^verbatim>\<open>uuidv4()\<close> and the clock.
\<close>

definition orders_init :: "string \<Rightarrow> string \<Rightarrow> order list" where
  "orders_init uuid created =
     [\<lparr>order_id = uuid, userId = JString ''user-1'',
       items = [\<lparr>bookId = JString ''book-1'', quantity = JNumber (Num 2),
                  price = JNumber (round_double (1299 / 100))\<rparr>,
                \<lparr>bookId = JString ''book-2'', quantity = JNumber (Num 1),
                  price = JNumber (round_double (1499 / 100))\<rparr>],
       totalAmount = round_double (4097 / 100), status = JString ''confirmed'', createdAt = created\<rparr>]"

subsection \<open>GET / : list\<close>

text \<open>The two arguments are \<^verbatim>\<open>req.query.userId\<close> and \<^verbatim>\<open>req.query.status\<close>.\<close>

definition list_orders :: "jsval \<Rightarrow> jsval \<Rightarrow> order list \<Rightarrow> response" where
  "list_orders q_userId q_status store =
     (let filteredOrders = store;
          filteredOrders = (if truthy q_userId
             then filter (\<lambda>order. strict_eq (userId order) q_userId) filteredOrders
             else filteredOrders);
          filteredOrders = (if truthy q_status
             then filter (\<lambda>order. strict_eq (status order) q_status) filteredOrders
             else filteredOrders)
      in (200, ListBody filteredOrders))"

subsection \<open>POST / : create\<close>

definition default_price :: number where
  "default_price = round_double (1099 / 100)"

text \<open>
  The price of one item: the default, replaced by \<^verbatim>\<open>bookResponse.data.price\<close> when the lookup
  resolves and reading the property does not throw.
\<close>

definition fetch_price :: "outcome \<Rightarrow> jsval \<times> event list" where
  "fetch_price r =
     (case r of
        Rejected \<Rightarrow>
          (JNumber default_price,
           [ConsoleLog ''Warning: Could not fetch book price, using default''])
      | Resolved d \<Rightarrow>
          (case get_prop d ''price'' of
             Inl _ \<Rightarrow>
               (JNumber default_price,
                [ConsoleLog ''Warning: Could not fetch book price, using default''])
           | Inr p \<Rightarrow> (p, [])))"

text \<open>How the loop over the items ends: a \<^verbatim>\<open>return res.status(400)...\<close>, an exception, or normally.\<close>

datatype loop_result = Return response | Throw error | Finished number "order_line list"

definition invalid_item_response :: response where
  "invalid_item_response = (400, ErrorBody ''Each item must have bookId and positive quantity'' 400)"

text \<open>
  The loop over the items, from iteration \<open>i\<close> on, with the running \<^verbatim>\<open>totalAmount\<close> (\<open>amount\<close>)
  and \<^verbatim>\<open>orderItems\<close> (\<open>lines\<close>). The properties of an item are read once here; the source
  reads them again, with the same result. The product converts the price first, then the
  quantity.
\<close>

fun item_loop :: "env \<Rightarrow> nat \<Rightarrow> jsval list \<Rightarrow> number \<Rightarrow> order_line list
    \<Rightarrow> loop_result \<times> event list" where
  "item_loop e i [] amount lines = (Finished amount lines, [])"
| "item_loop e i (item # rest) amount lines =
     (case get_prop item ''bookId'' of
        Inl err \<Rightarrow> (Throw err, [])
      | Inr b \<Rightarrow>
     (case get_prop item ''quantity'' of
        Inl err \<Rightarrow> (Throw err, [])
      | Inr q \<Rightarrow>
     (case (if \<not> truthy b \<or> \<not> truthy q then Some True else le_zero e q) of
        None \<Rightarrow> (Throw TypeError, [])
      | Some True \<Rightarrow> (Return invalid_item_response, [])
      | Some False \<Rightarrow>
          (let (bookPrice, logged) = fetch_price (books_service e i) in
           (case ToNumber e bookPrice of
              None \<Rightarrow> (Throw TypeError, BookLookup b # logged)
            | Some p \<Rightarrow>
           (case ToNumber e q of
              None \<Rightarrow> (Throw TypeError, BookLookup b # logged)
            | Some n \<Rightarrow>
                (let itemTotal = js_mul p n;
                     (r, t) = item_loop e (Suc i) rest (js_add amount itemTotal)
                                (lines @ [\<lparr>bookId = b, quantity = q, price = bookPrice\<rparr>])
                 in (r, BookLookup b # logged @ t))))))))"

text \<open>The lookup at the users service: whatever its outcome, the handler goes on.\<close>

definition verify_user :: "env \<Rightarrow> jsval \<Rightarrow> event list" where
  "verify_user e u =
     UserLookup u #
       (case users_service e of
          Rejected \<Rightarrow> [ConsoleLog ''Warning: Could not verify user existence'']
        | Resolved _ \<Rightarrow> [])"

definition isArray :: "jsval \<Rightarrow> bool" where
  "isArray v = (case v of JArray _ \<Rightarrow> True | _ \<Rightarrow> False)"

definition elements :: "jsval \<Rightarrow> jsval list" where
  "elements v = (case v of JArray xs \<Rightarrow> xs | _ \<Rightarrow> [])"

definition create_failed :: "order list \<Rightarrow> event list \<Rightarrow> response \<times> order list \<times> event list" where
  "create_failed store t =
     ((500, ErrorBody ''Failed to create order'' 500), store,
      t @ [ConsoleError ''Error creating order:''])"

text \<open>
  The handler: the response, the store afterwards, and the events. The third argument is
  \<^verbatim>\<open>req.body\<close>. The body sent with status 201 is the stored order, before its serialisation.
\<close>

definition create :: "env \<Rightarrow> order list \<Rightarrow> jsval \<Rightarrow> response \<times> order list \<times> event list" where
  "create e store req_body =
     (case get_prop req_body ''userId'' of
        Inl err \<Rightarrow> create_failed store []
      | Inr u \<Rightarrow>
     (case get_prop req_body ''items'' of
        Inl err \<Rightarrow> create_failed store []
      | Inr its \<Rightarrow>
          if \<not> truthy u \<or> \<not> truthy its \<or> \<not> isArray its \<or> length (elements its) = 0
          then ((400, ErrorBody ''UserId and items are required'' 400), store, [])
          else
            (case item_loop e 0 (elements its) (Num 0) [] of
               (Return r, t) \<Rightarrow> (r, store, verify_user e u @ t)
             | (Throw err, t) \<Rightarrow> create_failed store (verify_user e u @ t)
             | (Finished amount lines, t) \<Rightarrow>
                 (let newOrder = \<lparr>order_id = uuidv4 e, userId = u, items = lines,
                                   totalAmount = parseFloat_toFixed2 amount,
                                   status = JString ''pending'', createdAt = now e\<rparr>
                  in ((201, OrderBody newOrder), store @ [newOrder], verify_user e u @ t)))))"

subsection \<open>PATCH /:id/status and DELETE /:id\<close>

definition order_not_found :: response where
  "order_not_found = (404, ErrorBody ''Order not found'' 404)"

definition set_status :: "order list \<Rightarrow> string \<Rightarrow> jsval \<Rightarrow> response \<times> order list" where
  "set_status store ident req_body =
     (case get_prop req_body ''status'' of
        Inl _ \<Rightarrow> ((500, ErrorBody ''Failed to update order status'' 500), store)
      | Inr st \<Rightarrow>
          if \<not> truthy st \<or> \<not> array_includes validStatuses st
          then ((400, ErrorBody ''Valid status is required'' 400), store)
          else (case findIndex (\<lambda>x. order_id x = ident) store of
                  None \<Rightarrow> (order_not_found, store)
                | Some orderIndex \<Rightarrow>
                    (let store' = store[orderIndex := (store ! orderIndex)\<lparr>status := st\<rparr>]
                     in ((200, OrderBody (store' ! orderIndex)), store'))))"

definition cancel :: "order list \<Rightarrow> string \<Rightarrow> response \<times> order list" where
  "cancel store ident =
     (case findIndex (\<lambda>x. order_id x = ident) store of
        None \<Rightarrow> (order_not_found, store)
      | Some orderIndex \<Rightarrow>
          (let store' = store[orderIndex := (store ! orderIndex)\<lparr>status := JString ''cancelled''\<rparr>]
           in ((200, MessageBody ''Order cancelled successfully'' (store' ! orderIndex)), store')))"

section \<open>The gateway: GET /health\<close>

record service_status =
  books :: string
  users :: string
  orders :: string

record health_body =
  gateway :: string
  timestamp :: string
  services :: service_status

text \<open>
  The environment of one health request: whether \<^verbatim>\<open>require("axios")\<close> returns (it is the one
  statement of the outer try block that is not inside a try block of its own), the outcome of
  each probe, which axios bounds by \<^verbatim>\<open>timeout: 2000\<close> (a probe that times out is rejected), and
  the clock.
\<close>

record health_env =
  axios_loads :: bool
  books_probe :: outcome
  users_probe :: outcome
  orders_probe :: outcome
  health_now :: string

text \<open>One probe: \<^verbatim>\<open>try { await axios.get(...); s = "healthy" } catch { s = "unhealthy" }\<close>.\<close>

definition probe :: "outcome \<Rightarrow> string" where
  "probe r = (case r of Resolved _ \<Rightarrow> ''healthy'' | Rejected \<Rightarrow> ''unhealthy'')"

definition health :: "health_env \<Rightarrow> nat \<times> health_body" where
  "health h =
     (let svc = \<lparr>books = ''unknown'', users = ''unknown'', orders = ''unknown''\<rparr>;
          svc = (if axios_loads h
                 then (let svc = svc\<lparr>books := probe (books_probe h)\<rparr>;
                           svc = svc\<lparr>users := probe (users_probe h)\<rparr>;
                           svc = svc\<lparr>orders := probe (orders_probe h)\<rparr>
                       in svc)
                 else svc)
      in (200, \<lparr>gateway = ''healthy'', timestamp = health_now h, services = svc\<rparr>))"

section \<open>Notions of the specification\<close>

text \<open>Rounding to two decimals, a tie going away from zero.\<close>

definition round2 :: "rat \<Rightarrow> rat" where
  "round2 x = sgn x * (of_int \<lfloor>\<bar>x\<bar> * 100 + 1 / 2\<rfloor> / 100)"






subsection \<open>What the item loop does with one item\<close>

text \<open>\<^verbatim>\<open>v.k\<close> where the read is known not to throw.\<close>

definition read_prop :: "jsval \<Rightarrow> string \<Rightarrow> jsval" where
  "read_prop v k = (case get_prop v k of Inl _ \<Rightarrow> JUndefined | Inr x \<Rightarrow> x)"

text \<open>
  The test of line 165 on the quantity alone: \<^verbatim>\<open>!item.quantity || item.quantity <= 0\<close> is
  false, without an exception.
\<close>

definition positive_quantity :: "env \<Rightarrow> jsval \<Rightarrow> bool" where
  "positive_quantity e q = (truthy q \<and> le_zero e q = Some False)"

text \<open>An item passes the test of line 165: the loop goes on to its price.\<close>

definition valid_item :: "env \<Rightarrow> jsval \<Rightarrow> bool" where
  "valid_item e item =
     (case (get_prop item ''bookId'', get_prop item ''quantity'') of
        (Inr b, Inr q) \<Rightarrow> truthy b \<and> truthy q \<and> le_zero e q = Some False
      | _ \<Rightarrow> False)"

text \<open>An item fails the test of line 165 (no book identifier, no quantity, or a quantity \<open>\<le> 0\<close>).\<close>

definition invalid_item :: "env \<Rightarrow> jsval \<Rightarrow> bool" where
  "invalid_item e item =
     (case (get_prop item ''bookId'', get_prop item ''quantity'') of
        (Inr b, Inr q) \<Rightarrow> \<not> truthy b \<or> \<not> truthy q \<or> le_zero e q = Some True
      | _ \<Rightarrow> False)"

text \<open>The product of iteration \<open>i\<close> does not throw while converting the price.\<close>

definition priceable :: "env \<Rightarrow> nat \<Rightarrow> bool" where
  "priceable e i = (ToNumber e (fst (fetch_price (books_service e i))) \<noteq> None)"

text \<open>The line pushed for a valid item in iteration \<open>i\<close>.\<close>

definition line_of :: "env \<Rightarrow> nat \<Rightarrow> jsval \<Rightarrow> order_line" where
  "line_of e i item =
     \<lparr>bookId = read_prop item ''bookId'', quantity = read_prop item ''quantity'',
      price = fst (fetch_price (books_service e i))\<rparr>"

text \<open>
  The lookup of one item ends in the catch block: the promise is rejected, or reading
  \<^verbatim>\<open>.data.price\<close> throws because the body is null or undefined.
\<close>

definition lookup_throws :: "outcome \<Rightarrow> bool" where
  "lookup_throws r =
     (case r of
        Rejected \<Rightarrow> True
      | Resolved d \<Rightarrow> (case get_prop d ''price'' of Inl _ \<Rightarrow> True | Inr _ \<Rightarrow> False))"

text \<open>The book identifiers looked up at the books service, in the order of the lookups.\<close>

fun book_lookups :: "event list \<Rightarrow> jsval list" where
  "book_lookups [] = []"
| "book_lookups (BookLookup b # t) = b # book_lookups t"
| "book_lookups (ev # t) = book_lookups t"

text \<open>A quantity as the data model of the specification wants it: an integer, at least 1.\<close>

definition is_positive_integer :: "jsval \<Rightarrow> bool" where
  "is_positive_integer v = (case v of JNumber (Num r) \<Rightarrow> 1 \<le> r \<and> of_int \<lfloor>r\<rfloor> = r | _ \<Rightarrow> False)"

subsection \<open>The store and the health check\<close>

text \<open>The five status values the specification recognizes.\<close>

definition recognized :: "jsval set" where
  "recognized = {JString ''pending'', JString ''confirmed'', JString ''shipped'',
                 JString ''delivered'', JString ''cancelled''}"

text \<open>
  An order passes the filters of a list request: each filter that the handler takes as given
  (a truthy query value) is strictly equal to the order's field.
\<close>

definition matches :: "jsval \<Rightarrow> jsval \<Rightarrow> order \<Rightarrow> bool" where
  "matches q_userId q_status x \<longleftrightarrow>
     (truthy q_userId \<longrightarrow> strict_eq (userId x) q_userId) \<and>
     (truthy q_status \<longrightarrow> strict_eq (status x) q_status)"

text \<open>
  The reported status \<open>f\<close> of the backend with probe \<open>p\<close>: unhealthy exactly when its probe was
  made and failed, healthy exactly when it was made and succeeded, unknown exactly when no
  probe was made.
\<close>

definition probed :: "health_env \<Rightarrow> (health_env \<Rightarrow> outcome) \<Rightarrow> (service_status \<Rightarrow> string) \<Rightarrow> bool" where
  "probed h p f \<longleftrightarrow>
     (f (services (snd (health h))) = ''unhealthy'') = (axios_loads h \<and> p h = Rejected) \<and>
     (f (services (snd (health h))) = ''healthy'') = (axios_loads h \<and> (\<exists>d. p h = Resolved d)) \<and>
     (f (services (snd (health h))) = ''unknown'') = (\<not> axios_loads h)"

section \<open>Concrete requests\<close>

text \<open>An environment in which both services answer, the books service with the price 12.99.\<close>

definition example_env :: env where
  "example_env =
     \<lparr>to_number_rt = (\<lambda>v. Some NaN), users_service = Resolved (JObject []),
      books_service = (\<lambda>i. Resolved (JObject [(''id'', JString ''b1''),
                                              (''price'', JNumber (round_double (1299 / 100)))])),
      uuidv4 = ''order-2'', now = ''2024-01-01T00:00:00.000Z''\<rparr>"

text \<open>\<^verbatim>\<open>{userId: "u1", items: [{bookId: "b1", quantity: 2}]}\<close>\<close>

definition example_body :: jsval where
  "example_body =
     JObject [(''userId'', JString ''u1''),
              (''items'', JArray [JObject [(''bookId'', JString ''b1''),
                                           (''quantity'', JNumber (Num 2))]])]"

text \<open>\<^verbatim>\<open>{userId: "u1", items: [{bookId: "b1", quantity: 2}, {bookId: "b2", quantity: 0}]}\<close>\<close>

definition two_item_body :: jsval where
  "two_item_body =
     JObject [(''userId'', JString ''u1''),
              (''items'', JArray [JObject [(''bookId'', JString ''b1''), (''quantity'', JNumber (Num 2))],
                                  JObject [(''bookId'', JString ''b2''), (''quantity'', JNumber (Num 0))]])]"

text \<open>\<^verbatim>\<open>{userId: "u1", items: [{bookId: "b1", quantity: 0.5}]}\<close>\<close>

definition half_quantity_body :: jsval where
  "half_quantity_body =
     JObject [(''userId'', JString ''u1''),
              (''items'', JArray [JObject [(''bookId'', JString ''b1''),
                                           (''quantity'', JNumber (Num (1 / 2)))]])]"

text \<open>The books service answers 200 with a body that has no price: \<^verbatim>\<open>{id: "b1"}\<close>.\<close>

definition no_price_env :: env where
  "no_price_env = example_env\<lparr>books_service := (\<lambda>i. Resolved (JObject [(''id'', JString ''b1'')]))\<rparr>"

text \<open>The books service cannot be reached.\<close>

definition books_down_env :: env where
  "books_down_env = example_env\<lparr>books_service := (\<lambda>i. Rejected)\<rparr>"

text \<open>A store of two orders: the initial one, and a delivered order of user u2.\<close>

definition example_store :: "order list" where
  "example_store =
     orders_init ''order-1'' ''2024-01-01T00:00:00.000Z'' @
     [\<lparr>order_id = ''order-9'', userId = JString ''u2'',
       items = [\<lparr>bookId = JString ''book-1'', quantity = JNumber (Num 1),
                  price = JNumber (round_double (1299 / 100))\<rparr>],
       totalAmount = round_double (1299 / 100), status = JString ''delivered'',
       createdAt = ''2024-01-02T00:00:00.000Z''\<rparr>]"

text \<open>The books and orders services answer their probes, the users service does not.\<close>

definition example_health_env :: health_env where
  "example_health_env =
     \<lparr>axios_loads = True, books_probe = Resolved (JObject [(''status'', JString ''OK'')]),
      users_probe = Rejected, orders_probe = Resolved (JObject [(''status'', JString ''OK'')]),
      health_now = ''2024-01-01T00:00:00.000Z''\<rparr>"



section \<open>Properties of the double arithmetic\<close>

text \<open>The exponent that \<open>ilog2\<close> computes is the binary exponent of its argument.\<close>

lemma powi_bitlen_bounds:
  assumes "0 < z"
  shows "(2::rat) powi (bitlen z - 1) \<le> of_int z \<and> of_int z < (2::rat) powi bitlen z"
proof -
  from assms have b: "1 \<le> bitlen z"
    by (auto simp: bitlen_alt_def)
  from bitlen_bounds[OF assms]
  have "(of_int (2 ^ nat (bitlen z - 1)) :: rat) \<le> of_int z"
    and "(of_int z :: rat) < of_int (2 ^ nat (bitlen z))"
    unfolding of_int_le_iff of_int_less_iff by simp_all
  then have "(2::rat) ^ nat (bitlen z - 1) \<le> of_int z" and "of_int z < (2::rat) ^ nat (bitlen z)"
    by simp_all
  moreover have "(2::rat) powi (bitlen z - 1) = 2 ^ nat (bitlen z - 1)"
    using b by (simp add: power_int_def)
  moreover have "(2::rat) powi bitlen z = 2 ^ nat (bitlen z)"
    using b by (simp add: power_int_def)
  ultimately show ?thesis by simp
qed

lemma ilog2_bounds:
  assumes "0 < a"
  shows "2 powi ilog2 a \<le> a \<and> a < 2 powi (ilog2 a + 1)"
proof -
  obtain p q where pq: "quotient_of a = (p, q)"
    by (cases "quotient_of a")
  have q: "0 < q"
    using quotient_of_denom_pos[OF pq] .
  have a: "a = of_int p / of_int q"
    using quotient_of_div[OF pq] .
  have qpos: "(0::rat) < of_int q"
    using q by simp
  have p: "0 < p"
  proof (rule ccontr)
    assume "\<not> 0 < p"
    then have "(of_int p :: rat) \<le> 0" by simp
    with qpos have "of_int p / of_int q \<le> (0::rat)"
      by (simp add: divide_nonpos_pos)
    with assms a show False by simp
  qed
  define k where "k = bitlen p - bitlen q"
  note P = powi_bitlen_bounds[OF p]
  note Q = powi_bitlen_bounds[OF q]
  have pw: "(0::rat) < 2 powi j" for j
    by (simp add: zero_less_power_int)
  have lower: "2 powi (k - 1) \<le> a"
  proof -
    have "(2::rat) powi (k - 1) = 2 powi ((bitlen p - 1) - bitlen q)"
      by (simp add: k_def algebra_simps)
    also have "\<dots> = 2 powi (bitlen p - 1) / 2 powi bitlen q"
      by (rule power_int_diff) simp
    also have "\<dots> \<le> of_int p / of_int q"
    proof (rule frac_le)
      show "(0::rat) \<le> of_int p" using p by simp
      show "(2::rat) powi (bitlen p - 1) \<le> of_int p" using P by simp
      show "(0::rat) < of_int q" by (rule qpos)
      show "(of_int q :: rat) \<le> 2 powi bitlen q" using Q by simp
    qed
    finally show ?thesis by (simp only: a)
  qed
  have upper: "a < 2 powi (k + 1)"
  proof -
    have "of_int p / of_int q < 2 powi bitlen p / (of_int q :: rat)"
      using P qpos by (simp add: divide_strict_right_mono)
    also have "\<dots> \<le> 2 powi bitlen p / 2 powi (bitlen q - 1)"
    proof (rule frac_le)
      show "(0::rat) \<le> 2 powi bitlen p" using pw[of "bitlen p"] by simp
      show "(2::rat) powi bitlen p \<le> 2 powi bitlen p" by simp
      show "(0::rat) < 2 powi (bitlen q - 1)" by (rule pw)
      show "(2::rat) powi (bitlen q - 1) \<le> of_int q" using Q by simp
    qed
    also have "\<dots> = 2 powi (bitlen p - (bitlen q - 1))"
      by (rule power_int_diff[symmetric]) simp
    also have "\<dots> = (2::rat) powi (k + 1)"
      by (simp add: k_def algebra_simps)
    finally show ?thesis by (simp only: a)
  qed
  have il: "ilog2 a = (if 2 powi k \<le> a then k else k - 1)"
    unfolding ilog2_def pq k_def by simp
  show ?thesis
  proof (cases "2 powi k \<le> a")
    case True
    with il upper show ?thesis by simp
  next
    case False
    with il lower show ?thesis by simp
  qed
qed

text \<open>
  A finite result of \<open>round_double\<close> is within half a unit in the last place of the exact
  value.
\<close>

lemma round_half_even_near: "\<bar>of_int (round_half_even x) - x\<bar> \<le> 1 / 2"
proof -
  have "of_int \<lfloor>x\<rfloor> \<le> x" "x < of_int \<lfloor>x\<rfloor> + 1"
    by linarith+
  then show ?thesis
    by (auto simp: round_half_even_def Let_def abs_le_iff)
qed

lemma round_double_near:
  assumes "round_double x = Num y"
  shows "\<bar>y - x\<bar> \<le> 2 powi (max (ilog2 \<bar>x\<bar>) (- 1022) - 53)"
proof (cases "x = 0")
  case True
  with assms have "y = 0" by (simp add: round_double_def)
  with True show ?thesis by (simp add: zero_le_power_int)
next
  case False
  define e where "e = max (ilog2 \<bar>x\<bar>) (- 1022)"
  define u :: rat where "u = 2 powi (e - 52)"
  define n where "n = round_half_even (\<bar>x\<bar> / u)"
  have u: "0 < u" by (simp add: u_def zero_less_power_int)
  from assms False have y: "y = sgn x * of_int n * u"
    by (simp add: round_double_def Let_def e_def u_def n_def split: if_splits)
  have "\<bar>y - x\<bar> = \<bar>sgn x * (of_int n * u - \<bar>x\<bar>)\<bar>"
    unfolding y using False by (simp add: algebra_simps sgn_if abs_if)
  also have "\<dots> = \<bar>of_int n * u - \<bar>x\<bar>\<bar>"
    using False by (simp add: abs_mult sgn_if)
  also have "\<dots> = u * \<bar>of_int n - \<bar>x\<bar> / u\<bar>"
  proof -
    have "of_int n * u - \<bar>x\<bar> = u * (of_int n - \<bar>x\<bar> / u)"
      using u by (simp add: algebra_simps)
    then show ?thesis
      using u by (simp add: abs_mult)
  qed
  also have "\<dots> \<le> u * (1 / 2)"
    using u round_half_even_near[of "\<bar>x\<bar> / u"] unfolding n_def
    by (intro mult_left_mono) simp_all
  also have "\<dots> = 2 powi (e - 53)"
  proof -
    have "(2::rat) powi (e - 52) = 2 powi ((e - 53) + 1)" by simp
    also have "\<dots> = 2 powi (e - 53) * 2"
      by (subst power_int_add) simp_all
    finally show ?thesis by (simp add: u_def)
  qed
  finally show ?thesis by (simp add: e_def)
qed

section \<open>Properties of order creation\<close>

subsection \<open>Rounding\<close>

text \<open>toFixed(2) rounds its argument to two decimals, a tie going away from zero.\<close>

lemma nearest_is_floor_half:
  fixes a :: rat
  shows "(if a - of_int \<lfloor>a\<rfloor> < of_int (\<lfloor>a\<rfloor> + 1) - a then \<lfloor>a\<rfloor> else \<lfloor>a\<rfloor> + 1) = \<lfloor>a + 1 / 2\<rfloor>"
proof -
  define n where "n = \<lfloor>a\<rfloor>"
  have lo: "of_int n \<le> a" and hi: "a < of_int n + 1"
    unfolding n_def by linarith+
  have "(if a - of_int n < of_int (n + 1) - a then n else n + 1) = \<lfloor>a + 1 / 2\<rfloor>"
  proof (cases "a - of_int n < of_int (n + 1) - a")
    case True
    then have "a - of_int n < of_int n + 1 - a" by simp
    then have "of_int n \<le> a + 1 / 2" "a + 1 / 2 < of_int n + 1"
      using lo by linarith+
    then have "\<lfloor>a + 1 / 2\<rfloor> = n" by (rule floor_unique)
    with True show ?thesis by simp
  next
    case False
    then have "\<not> a - of_int n < of_int n + 1 - a" by simp
    then have "of_int n + 1 \<le> a + 1 / 2" "a + 1 / 2 < of_int n + 1 + 1"
      using hi by linarith+
    then have "of_int (n + 1) \<le> a + 1 / 2" "a + 1 / 2 < of_int (n + 1) + 1"
      by simp_all
    then have "\<lfloor>a + 1 / 2\<rfloor> = n + 1" by (rule floor_unique)
    with False show ?thesis by simp
  qed
  then show ?thesis unfolding n_def .
qed

lemma floor_half: "\<lfloor>1 / 2 :: rat\<rfloor> = 0"
  by (rule floor_unique) simp_all

lemma toFixed2_round2: "toFixed2 x = round2 x"
proof -
  have "toFixed2 x = (if x < 0 then - (of_int \<lfloor>\<bar>x\<bar> * 100 + 1 / 2\<rfloor> / 100)
                       else of_int \<lfloor>\<bar>x\<bar> * 100 + 1 / 2\<rfloor> / 100)"
    unfolding toFixed2_def Let_def nearest_is_floor_half ..
  also have "\<dots> = round2 x"
    by (cases "x = 0") (simp_all add: round2_def sgn_if floor_half)
  finally show ?thesis .
qed

subsection \<open>The item loop on items that are valid and priced by the books service\<close>







subsection \<open>The item loop in general\<close>

lemma book_lookups_append: "book_lookups (s @ t) = book_lookups s @ book_lookups t"
  by (induction s rule: book_lookups.induct) simp_all

lemma book_lookups_fetch_price: "book_lookups (snd (fetch_price r)) = []"
  by (simp add: fetch_price_def split: outcome.splits sum.splits)

lemma le_zero_ToNumber: "le_zero e q = Some c \<Longrightarrow> ToNumber e q \<noteq> None"
  by (auto simp: le_zero_def split: option.splits)

lemma positive_quantity_number: "positive_quantity e (JNumber (Num r)) \<longleftrightarrow> 0 < r"
  by (auto simp: positive_quantity_def le_zero_def)

lemma valid_item_quantity: "valid_item e item \<Longrightarrow> positive_quantity e (read_prop item ''quantity'')"
  by (auto simp: valid_item_def positive_quantity_def read_prop_def split: sum.splits)

lemma lookup_throws_priceable: "lookup_throws (books_service e i) \<Longrightarrow> priceable e i"
  by (auto simp: lookup_throws_def priceable_def fetch_price_def split: outcome.splits sum.splits)

lemma lookup_throws_price:
  "lookup_throws r \<Longrightarrow> fst (fetch_price r) = JNumber default_price"
  by (auto simp: lookup_throws_def fetch_price_def split: outcome.splits sum.splits)

lemma item_loop_valid_step:
  assumes "valid_item e item" and "priceable e i"
  shows "\<exists>a'. fst (item_loop e i (item # rest) a ls) =
                  fst (item_loop e (Suc i) rest a' (ls @ [line_of e i item]))
             \<and> book_lookups (snd (item_loop e i (item # rest) a ls)) =
                  read_prop item ''bookId'' #
                  book_lookups (snd (item_loop e (Suc i) rest a' (ls @ [line_of e i item])))"
proof -
  from assms(1) obtain b q where bq: "get_prop item ''bookId'' = Inr b"
      "get_prop item ''quantity'' = Inr q" "truthy b" "truthy q" "le_zero e q = Some False"
    by (auto simp: valid_item_def split: sum.splits)
  obtain bp lg where fp: "fetch_price (books_service e i) = (bp, lg)"
    by (cases "fetch_price (books_service e i)")
  from assms(2) fp obtain p where p: "ToNumber e bp = Some p"
    by (auto simp: priceable_def)
  from le_zero_ToNumber[OF bq(5)] obtain n where n: "ToNumber e q = Some n"
    by auto
  have lg: "book_lookups lg = []"
    using book_lookups_fetch_price[of "books_service e i"] fp by simp
  have line: "line_of e i item = \<lparr>bookId = b, quantity = q, price = bp\<rparr>"
    using bq fp by (simp add: line_of_def read_prop_def)
  have b: "read_prop item ''bookId'' = b"
    using bq by (simp add: read_prop_def)
  show ?thesis
    unfolding line b
    by (rule exI[of _ "js_add a (js_mul p n)"])
       (simp add: bq fp p n lg book_lookups_append split: prod.splits)
qed

lemma map_upt_shift:
  "map (\<lambda>j. f (i + j) ((x # xs) ! j)) [0..<length (x # xs)] =
   f i x # map (\<lambda>j. f (Suc i + j) (xs ! j)) [0..<length xs]"
  by (simp add: upt_conv_Cons map_Suc_upt[symmetric] del: upt_Suc)

lemma item_loop_all_valid:
  assumes "\<forall>j<length xs. valid_item e (xs ! j) \<and> priceable e (i + j)"
  shows "\<exists>a'. fst (item_loop e i xs a ls) =
                 Finished a' (ls @ map (\<lambda>j. line_of e (i + j) (xs ! j)) [0..<length xs])
             \<and> book_lookups (snd (item_loop e i xs a ls)) = map (\<lambda>x. read_prop x ''bookId'') xs"
  using assms
proof (induction xs arbitrary: i a ls)
  case Nil
  then show ?case by simp
next
  case (Cons item rest)
  from Cons.prems have head: "valid_item e item" "priceable e i"
    by force+
  from Cons.prems have tail: "\<forall>j<length rest. valid_item e (rest ! j) \<and> priceable e (Suc i + j)"
    by force
  from item_loop_valid_step[OF head, of rest a ls] obtain a1 where
    step: "fst (item_loop e i (item # rest) a ls) =
             fst (item_loop e (Suc i) rest a1 (ls @ [line_of e i item]))"
          "book_lookups (snd (item_loop e i (item # rest) a ls)) =
             read_prop item ''bookId'' #
             book_lookups (snd (item_loop e (Suc i) rest a1 (ls @ [line_of e i item])))"
    by blast
  from Cons.IH[OF tail, of a1 "ls @ [line_of e i item]"] obtain a2 where
    ih: "fst (item_loop e (Suc i) rest a1 (ls @ [line_of e i item])) =
           Finished a2 ((ls @ [line_of e i item]) @
             map (\<lambda>j. line_of e (Suc i + j) (rest ! j)) [0..<length rest])"
        "book_lookups (snd (item_loop e (Suc i) rest a1 (ls @ [line_of e i item]))) =
           map (\<lambda>x. read_prop x ''bookId'') rest"
    by blast
  show ?case
    unfolding step ih map_upt_shift[of "line_of e"] by simp
qed

lemma item_loop_invalid_head:
  assumes "invalid_item e bad"
  shows "item_loop e i (bad # post) a ls = (Return invalid_item_response, [])"
  using assms
  by (auto simp: invalid_item_def split: sum.splits)

lemma item_loop_first_invalid:
  assumes "\<forall>j<length pre. valid_item e (pre ! j) \<and> priceable e (i + j)"
    and "invalid_item e bad"
  shows "fst (item_loop e i (pre @ bad # post) a ls) = Return invalid_item_response
       \<and> book_lookups (snd (item_loop e i (pre @ bad # post) a ls)) =
           map (\<lambda>x. read_prop x ''bookId'') pre"
  using assms(1)
proof (induction pre arbitrary: i a ls)
  case Nil
  show ?case
    using item_loop_invalid_head[OF assms(2), of i post a ls] by (simp del: item_loop.simps)
next
  case (Cons item rest)
  from Cons.prems have head: "valid_item e item" "priceable e i"
    by force+
  from Cons.prems have tail: "\<forall>j<length rest. valid_item e (rest ! j) \<and> priceable e (Suc i + j)"
    by force
  from item_loop_valid_step[OF head, of "rest @ bad # post" a ls] obtain a1 where
    step: "fst (item_loop e i (item # rest @ bad # post) a ls) =
             fst (item_loop e (Suc i) (rest @ bad # post) a1 (ls @ [line_of e i item]))"
          "book_lookups (snd (item_loop e i (item # rest @ bad # post) a ls)) =
             read_prop item ''bookId'' #
             book_lookups (snd (item_loop e (Suc i) (rest @ bad # post) a1 (ls @ [line_of e i item])))"
    by blast
  show ?case
    using Cons.IH[OF tail, of a1 "ls @ [line_of e i item]"] step by simp
qed

lemma item_loop_not_valid_head:
  assumes "\<not> valid_item e item"
  shows "fst (item_loop e i (item # rest) a ls) \<noteq> Finished a' ls'"
  using assms
  by (auto simp: valid_item_def split: sum.splits option.splits bool.splits)

lemma item_loop_Finished_valid:
  assumes "fst (item_loop e i xs a ls) = Finished a' ls'"
  shows "(\<forall>x\<in>set xs. valid_item e x) \<and>
         ls' = ls @ map (\<lambda>j. line_of e (i + j) (xs ! j)) [0..<length xs]"
  using assms
proof (induction xs arbitrary: i a ls)
  case Nil
  then show ?case by simp
next
  case (Cons item rest)
  have v: "valid_item e item"
    using Cons.prems item_loop_not_valid_head[of e item i rest a ls a' ls'] by blast
  have p: "priceable e i"
  proof (rule ccontr)
    assume "\<not> priceable e i"
    with v have "fst (item_loop e i (item # rest) a ls) = Throw TypeError"
      by (auto simp: valid_item_def priceable_def split: sum.splits prod.splits)
    with Cons.prems show False by simp
  qed
  from item_loop_valid_step[OF v p, of rest a ls] obtain a1 where
    step: "fst (item_loop e i (item # rest) a ls) =
             fst (item_loop e (Suc i) rest a1 (ls @ [line_of e i item]))"
    by blast
  with Cons.prems have "fst (item_loop e (Suc i) rest a1 (ls @ [line_of e i item])) = Finished a' ls'"
    by simp
  from Cons.IH[OF this] v show ?case
    unfolding map_upt_shift[of "line_of e"] by simp
qed

lemma item_loop_Return:
  assumes "fst (item_loop e i xs a ls) = Return r"
  shows "r = invalid_item_response"
  using assms
proof (induction xs arbitrary: i a ls)
  case Nil
  then show ?case by simp
next
  case (Cons item rest)
  show ?case
  proof (cases "valid_item e item \<and> priceable e i")
    case True
    with item_loop_valid_step[of e item i rest a ls] obtain a1 where
      "fst (item_loop e i (item # rest) a ls) =
         fst (item_loop e (Suc i) rest a1 (ls @ [line_of e i item]))"
      by blast
    with Cons.prems Cons.IH show ?thesis by simp
  next
    case False
    with Cons.prems show ?thesis
      by (auto simp: valid_item_def priceable_def
               split: sum.splits option.splits bool.splits prod.splits if_splits)
  qed
qed

subsection \<open>The handler in terms of the loop\<close>

lemma create_main:
  assumes "get_prop req_body ''userId'' = Inr u" and "truthy u"
    and "get_prop req_body ''items'' = Inr (JArray xs)" and "xs \<noteq> []"
  shows "create e store req_body =
     (case item_loop e 0 xs (Num 0) [] of
        (Return r, t) \<Rightarrow> (r, store, verify_user e u @ t)
      | (Throw err, t) \<Rightarrow> create_failed store (verify_user e u @ t)
      | (Finished amount lines, t) \<Rightarrow>
          ((201, OrderBody \<lparr>order_id = uuidv4 e, userId = u, items = lines,
                             totalAmount = parseFloat_toFixed2 amount,
                             status = JString ''pending'', createdAt = now e\<rparr>),
           store @ [\<lparr>order_id = uuidv4 e, userId = u, items = lines,
                      totalAmount = parseFloat_toFixed2 amount,
                      status = JString ''pending'', createdAt = now e\<rparr>],
           verify_user e u @ t))"
  using assms
  by (simp add: create_def isArray_def elements_def Let_def split: prod.splits loop_result.splits)

lemma create_early:
  assumes "get_prop req_body ''userId'' = Inr u"
    and "get_prop req_body ''items'' = Inr its"
    and "\<not> truthy u \<or> its = JArray [] \<or> \<not> isArray its"
  shows "create e store req_body =
           ((400, ErrorBody ''UserId and items are required'' 400), store, [])"
  using assms by (auto simp: create_def isArray_def elements_def)

lemma book_lookups_verify_user [simp]: "book_lookups (verify_user e u @ t) = book_lookups t"
  by (simp add: verify_user_def split: outcome.splits)

lemma create_outcomes:
  "(\<exists>msg. fst (create e store req_body) = (400, ErrorBody msg 400)
           \<and> fst (snd (create e store req_body)) = store)
   \<or> (\<exists>msg. fst (create e store req_body) = (500, ErrorBody msg 500)
           \<and> fst (snd (create e store req_body)) = store)
   \<or> (\<exists>u xs a ord. get_prop req_body ''userId'' = Inr u \<and> truthy u
           \<and> get_prop req_body ''items'' = Inr (JArray xs) \<and> xs \<noteq> []
           \<and> fst (item_loop e 0 xs (Num 0) []) = Finished a (items ord)
           \<and> fst (create e store req_body) = (201, OrderBody ord)
           \<and> fst (snd (create e store req_body)) = store @ [ord])"
proof (cases "get_prop req_body ''userId''")
  case (Inl err)
  then show ?thesis by (simp add: create_def create_failed_def)
next
  case u: (Inr u)
  show ?thesis
  proof (cases "get_prop req_body ''items''")
    case (Inl err)
    with u show ?thesis by (simp add: create_def create_failed_def)
  next
    case its: (Inr its)
    show ?thesis
    proof (cases "\<not> truthy u \<or> its = JArray [] \<or> \<not> isArray its")
      case True
      from create_early[OF u its True] show ?thesis by simp
    next
      case False
      then obtain xs where xs: "its = JArray xs" "xs \<noteq> []" and tu: "truthy u"
        by (auto simp: isArray_def split: jsval.splits)
      obtain r t where loop: "item_loop e 0 xs (Num 0) [] = (r, t)"
        by (cases "item_loop e 0 xs (Num 0) []")
      note main = create_main[OF u tu its[unfolded xs(1)] xs(2), of e store, unfolded loop]
      show ?thesis
      proof (cases r)
        case (Return resp)
        with loop item_loop_Return[of e 0 xs "Num 0" "[]" resp]
        have "resp = invalid_item_response" by simp
        with Return main show ?thesis by (simp add: invalid_item_response_def)
      next
        case (Throw err)
        with main show ?thesis by (simp add: create_failed_def)
      next
        case (Finished a ls)
        with main u tu its xs loop show ?thesis by simp
      qed
    qed
  qed
qed

subsection \<open>The example request\<close>

lemma example_run:
  "create example_env [] example_body =
     ((201, OrderBody \<lparr>order_id = ''order-2'', userId = JString ''u1'',
        items = [\<lparr>bookId = JString ''b1'', quantity = JNumber (Num 2),
                   price = JNumber (round_double (1299 / 100))\<rparr>],
        totalAmount = round_double (2598 / 100), status = JString ''pending'',
        createdAt = ''2024-01-01T00:00:00.000Z''\<rparr>),
      [\<lparr>order_id = ''order-2'', userId = JString ''u1'',
        items = [\<lparr>bookId = JString ''b1'', quantity = JNumber (Num 2),
                   price = JNumber (round_double (1299 / 100))\<rparr>],
        totalAmount = round_double (2598 / 100), status = JString ''pending'',
        createdAt = ''2024-01-01T00:00:00.000Z''\<rparr>],
      [UserLookup (JString ''u1''), BookLookup (JString ''b1'')])"
  by code_simp

subsection \<open>An invalid item\<close>

text \<open>
  C2, as stated, fails: validation and pricing share one loop, so the items before the first
  invalid one have been looked up at the books service when the request is rejected. Here the
  second item has quantity 0; the answer is 400 after a lookup for b1.
\<close>

theorem invalid_item_counterexample:
  "fst (fst (create example_env [] two_item_body)) = 400
   \<and> book_lookups (snd (snd (create example_env [] two_item_body))) = [JString ''b1'']"
  by (simp add: create_def two_item_body_def example_env_def isArray_def elements_def
        le_zero_def fetch_price_def invalid_item_response_def verify_user_def)

text \<open>
  C2, amended. A request with a user identifier field and an items array whose first invalid
  item \<open>bad\<close> comes after the valid items \<open>pre\<close>, none of which makes the price conversion
  throw, is answered with status 400 and leaves the store as it was; the books service has been
  asked for exactly the items of \<open>pre\<close>, in their order (for none when the user identifier is
  missing, or when the first item is the invalid one).
\<close>

theorem invalid_item_rejected:
  assumes "get_prop req_body ''userId'' = Inr u"
    and "get_prop req_body ''items'' = Inr (JArray (pre @ bad # post))"
    and "\<forall>j<length pre. valid_item e (pre ! j) \<and> priceable e j"
    and "invalid_item e bad"
  shows "fst (fst (create e store req_body)) = 400
       \<and> fst (snd (create e store req_body)) = store
       \<and> book_lookups (snd (snd (create e store req_body))) =
           (if truthy u then map (\<lambda>x. read_prop x ''bookId'') pre else [])"
proof (cases "truthy u")
  case False
  with create_early[OF assms(1,2), of e store] show ?thesis by simp
next
  case True
  from assms(3) have "\<forall>j<length pre. valid_item e (pre ! j) \<and> priceable e (0 + j)"
    by simp
  from item_loop_first_invalid[OF this assms(4), of post "Num 0" "[]"]
  obtain t where "item_loop e 0 (pre @ bad # post) (Num 0) [] = (Return invalid_item_response, t)"
    and "book_lookups t = map (\<lambda>x. read_prop x ''bookId'') pre"
    by (cases "item_loop e 0 (pre @ bad # post) (Num 0) []") auto
  with create_main[OF assms(1) True assms(2), of e store] True show ?thesis
    by (simp add: invalid_item_response_def)
qed

theorem invalid_item_rejected_witness:
  "fst (fst (create example_env [] two_item_body)) = 400
   \<and> fst (snd (create example_env [] two_item_body)) = []
   \<and> book_lookups (snd (snd (create example_env [] two_item_body))) =
       map (\<lambda>x. read_prop x ''bookId'')
         [JObject [(''bookId'', JString ''b1''), (''quantity'', JNumber (Num 2))]]"
proof -
  have "get_prop two_item_body ''userId'' = Inr (JString ''u1'')"
    by (simp add: two_item_body_def)
  moreover have "get_prop two_item_body ''items'' =
      Inr (JArray ([JObject [(''bookId'', JString ''b1''), (''quantity'', JNumber (Num 2))]] @
                   JObject [(''bookId'', JString ''b2''), (''quantity'', JNumber (Num 0))] # []))"
    by (simp add: two_item_body_def)
  moreover have "\<forall>j<length [JObject [(''bookId'', JString ''b1''), (''quantity'', JNumber (Num 2))]].
      valid_item example_env ([JObject [(''bookId'', JString ''b1''), (''quantity'', JNumber (Num 2))]] ! j)
      \<and> priceable example_env j"
    by (simp add: valid_item_def priceable_def le_zero_def fetch_price_def example_env_def)
  moreover have "invalid_item example_env
      (JObject [(''bookId'', JString ''b2''), (''quantity'', JNumber (Num 0))])"
    by (simp add: invalid_item_def)
  ultimately show ?thesis
    using invalid_item_rejected[of two_item_body "JString ''u1''"
        "[JObject [(''bookId'', JString ''b1''), (''quantity'', JNumber (Num 2))]]"
        "JObject [(''bookId'', JString ''b2''), (''quantity'', JNumber (Num 0))]" "[]"
        example_env "[]"]
    by simp
qed

subsection \<open>The books service fails\<close>

text \<open>
  C4 fails on the code for a malformed response. The books service answers 200 with a body
  that has no price; line 176 then overwrites the default with the absent price, so the order
  is created with a line without price and the total NaN, where the claim, the comment
  \<^verbatim>\<open>// default price\<close> and the paths below give the line the price 10.99.
\<close>

theorem missing_price_is_stored:
  "fst (create no_price_env [] example_body) =
     (201, OrderBody \<lparr>order_id = ''order-2'', userId = JString ''u1'',
        items = [\<lparr>bookId = JString ''b1'', quantity = JNumber (Num 2), price = JUndefined\<rparr>],
        totalAmount = NaN, status = JString ''pending'',
        createdAt = ''2024-01-01T00:00:00.000Z''\<rparr>)
   \<and> JUndefined \<noteq> JNumber default_price"
  by (simp add: create_def example_body_def no_price_env_def example_env_def isArray_def
        elements_def le_zero_def fetch_price_def Let_def)

text \<open>So the answer is not the one C4 asks for, with the default price in the line.\<close>

theorem missing_price_not_defaulted:
  "fst (fst (create no_price_env [] example_body)) = 201
   \<and> fst (create no_price_env [] example_body) \<noteq>
     (201, OrderBody \<lparr>order_id = ''order-2'', userId = JString ''u1'',
        items = [\<lparr>bookId = JString ''b1'', quantity = JNumber (Num 2),
                   price = JNumber default_price\<rparr>],
        totalAmount = round_double (2198 / 100), status = JString ''pending'',
        createdAt = ''2024-01-01T00:00:00.000Z''\<rparr>)"
  using missing_price_is_stored by simp

text \<open>
  The paths on which the handler does what C4 says. For a valid request in which every lookup
  either ends in the catch block (rejected promise, or a null body) or returns a price whose
  conversion does not throw, the order is created with status 201 and appended to the store,
  with one line per item, and the line of every item whose lookup ended in the catch block
  has the default price 10.99.
\<close>

lemma default_price_when_lookup_throws:
  assumes "get_prop req_body ''userId'' = Inr u" and "truthy u"
    and "get_prop req_body ''items'' = Inr (JArray xs)" and "xs \<noteq> []"
    and "\<forall>j<length xs. valid_item e (xs ! j) \<and> (lookup_throws (books_service e j) \<or> priceable e j)"
  shows "\<exists>ord. fst (create e store req_body) = (201, OrderBody ord)
       \<and> fst (snd (create e store req_body)) = store @ [ord]
       \<and> length (items ord) = length xs
       \<and> (\<forall>i<length xs. lookup_throws (books_service e i) \<longrightarrow>
             price (items ord ! i) = JNumber default_price)"
proof -
  from assms(5) have "\<forall>j<length xs. valid_item e (xs ! j) \<and> priceable e (0 + j)"
    using lookup_throws_priceable by auto
  from item_loop_all_valid[OF this, of "Num 0" "[]"]
  obtain a' t where loop: "item_loop e 0 xs (Num 0) [] =
      (Finished a' (map (\<lambda>j. line_of e j (xs ! j)) [0..<length xs]), t)"
    by (cases "item_loop e 0 xs (Num 0) []") auto
  have "\<forall>i<length xs. lookup_throws (books_service e i) \<longrightarrow>
      price (map (\<lambda>j. line_of e j (xs ! j)) [0..<length xs] ! i) = JNumber default_price"
    by (simp add: line_of_def lookup_throws_price)
  then show ?thesis
    unfolding create_main[OF assms(1-4)] loop by simp
qed

text \<open>The example request when the books service cannot be reached.\<close>

lemma default_price_when_books_down:
  "\<exists>ord. fst (create books_down_env [] example_body) = (201, OrderBody ord)
       \<and> fst (snd (create books_down_env [] example_body)) = [] @ [ord]
       \<and> length (items ord) = 1
       \<and> price (items ord ! 0) = JNumber default_price"
proof -
  have "get_prop example_body ''userId'' = Inr (JString ''u1'')"
    and "truthy (JString ''u1'')"
    and "get_prop example_body ''items'' =
           Inr (JArray [JObject [(''bookId'', JString ''b1''), (''quantity'', JNumber (Num 2))]])"
    and "[JObject [(''bookId'', JString ''b1''), (''quantity'', JNumber (Num 2))]] \<noteq> []"
    by (simp_all add: example_body_def)
  moreover have "\<forall>j<length [JObject [(''bookId'', JString ''b1''), (''quantity'', JNumber (Num 2))]].
      valid_item books_down_env
        ([JObject [(''bookId'', JString ''b1''), (''quantity'', JNumber (Num 2))]] ! j)
      \<and> (lookup_throws (books_service books_down_env j) \<or> priceable books_down_env j)"
    by (simp add: valid_item_def lookup_throws_def le_zero_def books_down_env_def)
  ultimately have "\<exists>ord. fst (create books_down_env [] example_body) = (201, OrderBody ord)
       \<and> fst (snd (create books_down_env [] example_body)) = [] @ [ord]
       \<and> length (items ord) = length [JObject [(''bookId'', JString ''b1''), (''quantity'', JNumber (Num 2))]]
       \<and> (\<forall>i<length [JObject [(''bookId'', JString ''b1''), (''quantity'', JNumber (Num 2))]].
             lookup_throws (books_service books_down_env i) \<longrightarrow>
             price (items ord ! i) = JNumber default_price)"
    by (rule default_price_when_lookup_throws)
  then show ?thesis
    by (simp add: lookup_throws_def books_down_env_def)
qed

subsection \<open>The users service fails\<close>

lemma ToNumber_users [simp]: "ToNumber (e\<lparr>users_service := r\<rparr>) v = ToNumber e v"
  by (cases v) simp_all

lemma le_zero_users [simp]: "le_zero (e\<lparr>users_service := r\<rparr>) v = le_zero e v"
  by (simp add: le_zero_def)

lemma item_loop_users: "item_loop (e\<lparr>users_service := r\<rparr>) i xs a ls = item_loop e i xs a ls"
proof (induction xs arbitrary: i a ls)
  case Nil
  then show ?case by simp
next
  case (Cons item rest)
  then show ?case
    by (simp split: sum.splits option.splits bool.splits prod.splits)
qed

text \<open>
  C5. The response and the store after the request do not depend on the outcome of the lookup
  at the users service, for every request, valid or not.
\<close>

theorem create_ignores_identity_outcome:
  "fst (create (e\<lparr>users_service := r\<rparr>) store req_body) =
     fst (create (e\<lparr>users_service := r'\<rparr>) store req_body)
   \<and> fst (snd (create (e\<lparr>users_service := r\<rparr>) store req_body)) =
     fst (snd (create (e\<lparr>users_service := r'\<rparr>) store req_body))"
proof -
  have same: "fst (create (e\<lparr>users_service := x\<rparr>) store req_body) = fst (create e store req_body)
      \<and> fst (snd (create (e\<lparr>users_service := x\<rparr>) store req_body)) =
        fst (snd (create e store req_body))" for x
    by (simp add: create_def create_failed_def item_loop_users Let_def
             split: sum.splits prod.splits loop_result.splits)
  show ?thesis
    using same[of r] same[of r'] by simp
qed

text \<open>
  The example request in the run where the users service cannot be reached: the same order as
  in the run where it answers.
\<close>

theorem create_without_identity_service:
  "fst (create (example_env\<lparr>users_service := Rejected\<rparr>) [] example_body) =
     (201, OrderBody \<lparr>order_id = ''order-2'', userId = JString ''u1'',
        items = [\<lparr>bookId = JString ''b1'', quantity = JNumber (Num 2),
                   price = JNumber (round_double (1299 / 100))\<rparr>],
        totalAmount = round_double (2598 / 100), status = JString ''pending'',
        createdAt = ''2024-01-01T00:00:00.000Z''\<rparr>)
   \<and> fst (snd (create (example_env\<lparr>users_service := Rejected\<rparr>) [] example_body)) =
     [\<lparr>order_id = ''order-2'', userId = JString ''u1'',
        items = [\<lparr>bookId = JString ''b1'', quantity = JNumber (Num 2),
                   price = JNumber (round_double (1299 / 100))\<rparr>],
        totalAmount = round_double (2598 / 100), status = JString ''pending'',
        createdAt = ''2024-01-01T00:00:00.000Z''\<rparr>]"
proof -
  have "example_env\<lparr>users_service := Resolved (JObject [])\<rparr> = example_env"
    by (simp add: example_env_def)
  with create_ignores_identity_outcome[where e = example_env and r = Rejected
      and r' = "Resolved (JObject [])" and store = "[]" and req_body = example_body]
  show ?thesis
    by (simp add: example_run)
qed

subsection \<open>Quantities\<close>

text \<open>
  C6 fails on the code. The documentation of the route (lines 130 and 131) and the schema of
  an order declare the quantity an integer, and the guard of line 165 is there to reject bad
  quantities, but it only tests that the quantity is present and not \<open>\<le> 0\<close>. The quantity 0.5
  is accepted with status 201 and stored in the line.
\<close>

theorem fractional_quantity_is_stored:
  "create example_env [] half_quantity_body =
     ((201, OrderBody \<lparr>order_id = ''order-2'', userId = JString ''u1'',
        items = [\<lparr>bookId = JString ''b1'', quantity = JNumber (Num (1 / 2)),
                   price = JNumber (round_double (1299 / 100))\<rparr>],
        totalAmount = Num (13 / 2), status = JString ''pending'',
        createdAt = ''2024-01-01T00:00:00.000Z''\<rparr>),
      [\<lparr>order_id = ''order-2'', userId = JString ''u1'',
        items = [\<lparr>bookId = JString ''b1'', quantity = JNumber (Num (1 / 2)),
                   price = JNumber (round_double (1299 / 100))\<rparr>],
        totalAmount = Num (13 / 2), status = JString ''pending'',
        createdAt = ''2024-01-01T00:00:00.000Z''\<rparr>],
      [UserLookup (JString ''u1''), BookLookup (JString ''b1'')])
   \<and> \<not> is_positive_integer (JNumber (Num (1 / 2)))"
  by code_simp

text \<open>So the request is not rejected, and the stored quantity is not a positive integer.\<close>

theorem fractional_quantity_not_rejected:
  "fst (fst (create example_env [] half_quantity_body)) \<noteq> 400
   \<and> map (map quantity \<circ> items) (fst (snd (create example_env [] half_quantity_body))) =
       [[JNumber (Num (1 / 2))]]
   \<and> \<not> is_positive_integer (JNumber (Num (1 / 2)))"
  using fractional_quantity_is_stored by simp

text \<open>
  What the guard does establish: every line of a created order has a quantity that passed it
  (present and not \<open>\<le> 0\<close>), and a request with an item whose quantity does not pass it is
  never stored: it is answered with status 400, or 500 when an exception comes first.
\<close>

lemma quantity_guard:
  "(fst (create e store req_body) = (201, OrderBody ord) \<longrightarrow>
      fst (snd (create e store req_body)) = store @ [ord] \<and>
      (\<forall>l\<in>set (items ord). positive_quantity e (quantity l)))
   \<and> (get_prop req_body' ''items'' = Inr (JArray xs) \<and> item \<in> set xs \<and>
      get_prop item ''quantity'' = Inr q \<and> \<not> positive_quantity e' q \<longrightarrow>
      (fst (fst (create e' store' req_body')) = 400 \<or>
       fst (fst (create e' store' req_body')) = 500) \<and>
      fst (snd (create e' store' req_body')) = store')"
proof (rule conjI; rule impI)
  assume created: "fst (create e store req_body) = (201, OrderBody ord)"
  with create_outcomes[of e store req_body] obtain ys a where
    loop: "fst (item_loop e 0 ys (Num 0) []) = Finished a (items ord)"
    and st: "fst (snd (create e store req_body)) = store @ [ord]"
    by auto
  from item_loop_Finished_valid[OF loop]
  have valid: "\<forall>x\<in>set ys. valid_item e x"
    and lines: "items ord = map (\<lambda>j. line_of e j (ys ! j)) [0..<length ys]"
    by simp_all
  have "positive_quantity e (quantity l)" if "l \<in> set (items ord)" for l
  proof -
    from that lines obtain j where j: "j < length ys" "l = line_of e j (ys ! j)"
      by auto
    with valid show ?thesis
      using valid_item_quantity[of e "ys ! j"] by (simp add: line_of_def)
  qed
  with st show "fst (snd (create e store req_body)) = store @ [ord] \<and>
      (\<forall>l\<in>set (items ord). positive_quantity e (quantity l))"
    by blast
next
  assume bad: "get_prop req_body' ''items'' = Inr (JArray xs) \<and> item \<in> set xs \<and>
      get_prop item ''quantity'' = Inr q \<and> \<not> positive_quantity e' q"
  have "fst (create e' store' req_body') \<noteq> (201, OrderBody ord')" for ord'
  proof
    assume "fst (create e' store' req_body') = (201, OrderBody ord')"
    with create_outcomes[of e' store' req_body'] bad obtain a where
      "fst (item_loop e' 0 xs (Num 0) []) = Finished a (items ord')"
      by auto
    from item_loop_Finished_valid[OF this] bad have "valid_item e' item"
      by simp
    from valid_item_quantity[OF this] bad show False
      by (simp add: read_prop_def)
  qed
  with create_outcomes[of e' store' req_body']
  show "(fst (fst (create e' store' req_body')) = 400 \<or>
       fst (fst (create e' store' req_body')) = 500) \<and>
      fst (snd (create e' store' req_body')) = store'"
    by auto
qed

section \<open>Properties of the order store\<close>

lemma findIndex_None: "findIndex P xs = None \<longleftrightarrow> (\<forall>x\<in>set xs. \<not> P x)"
  by (induction xs) auto

lemma findIndex_Some:
  "findIndex P xs = Some i \<Longrightarrow> i < length xs \<and> P (xs ! i) \<and> (\<forall>j<i. \<not> P (xs ! j))"
proof (induction xs arbitrary: i)
  case Nil
  then show ?case by simp
next
  case (Cons x xs)
  show ?case
  proof (cases "P x")
    case True
    with Cons.prems show ?thesis by simp
  next
    case False
    with Cons.prems obtain k where k: "findIndex P xs = Some k" "i = Suc k"
      by auto
    from Cons.IH[OF k(1)] False k(2) show ?thesis
      by (auto simp: less_Suc_eq_0_disj)
  qed
qed

lemma strict_eq_JString: "strict_eq (JString s) v \<longleftrightarrow> v = JString s"
  by (cases v) auto

lemma strict_eq_JString_right: "strict_eq v (JString s) \<longleftrightarrow> v = JString s"
  by (cases "(v, JString s)" rule: strict_eq.cases) auto

lemma includes_validStatuses: "array_includes validStatuses v \<longleftrightarrow> v \<in> recognized"
  by (auto simp: array_includes_def validStatuses_def recognized_def strict_eq_JString)

lemma recognized_truthy: "v \<in> recognized \<Longrightarrow> truthy v"
  by (auto simp: recognized_def)

subsection \<open>Setting the status\<close>

text \<open>
  C7. A status that is not one of the five recognized values is rejected with status 400 and
  the store stays as it is, whatever the identifier (so also for one that is in the store);
  a recognized status for an identifier that no order has is rejected with status 404, and the
  store stays as it is.
\<close>

theorem set_status_rejects:
  "(get_prop req_body ''status'' = Inr st \<and> st \<notin> recognized \<longrightarrow>
      set_status store ident req_body =
        ((400, ErrorBody ''Valid status is required'' 400), store))
   \<and> (get_prop req_body' ''status'' = Inr st' \<and> st' \<in> recognized \<and>
       ident' \<notin> order_id ` set store' \<longrightarrow>
      set_status store' ident' req_body' = ((404, ErrorBody ''Order not found'' 404), store'))"
proof (rule conjI; rule impI)
  assume "get_prop req_body ''status'' = Inr st \<and> st \<notin> recognized"
  then show "set_status store ident req_body =
        ((400, ErrorBody ''Valid status is required'' 400), store)"
    by (simp add: set_status_def includes_validStatuses)
next
  assume a: "get_prop req_body' ''status'' = Inr st' \<and> st' \<in> recognized \<and>
       ident' \<notin> order_id ` set store'"
  then have "findIndex (\<lambda>x. order_id x = ident') store' = None"
    by (auto simp: findIndex_None)
  with a show "set_status store' ident' req_body' =
      ((404, ErrorBody ''Order not found'' 404), store')"
    by (simp add: set_status_def includes_validStatuses recognized_truthy order_not_found_def)
qed

text \<open>The status bogus for the first order of the example store, and an unknown identifier.\<close>

theorem set_status_bogus:
  "set_status example_store ''order-1'' (JObject [(''status'', JString ''bogus'')]) =
     ((400, ErrorBody ''Valid status is required'' 400), example_store)
   \<and> set_status example_store ''order-7'' (JObject [(''status'', JString ''shipped'')]) =
     ((404, ErrorBody ''Order not found'' 404), example_store)"
proof -
  have "get_prop (JObject [(''status'', JString ''bogus'')]) ''status'' = Inr (JString ''bogus'')
      \<and> JString ''bogus'' \<notin> recognized"
    by (simp add: recognized_def)
  moreover have "get_prop (JObject [(''status'', JString ''shipped'')]) ''status'' =
        Inr (JString ''shipped'')
      \<and> JString ''shipped'' \<in> recognized \<and> ''order-7'' \<notin> order_id ` set example_store"
    by (simp add: recognized_def example_store_def orders_init_def)
  ultimately show ?thesis
    using set_status_rejects[where req_body = "JObject [(''status'', JString ''bogus'')]"
        and st = "JString ''bogus''" and store = example_store and ident = "''order-1''"
        and req_body' = "JObject [(''status'', JString ''shipped'')]"
        and st' = "JString ''shipped''" and store' = example_store and ident' = "''order-7''"]
    by simp
qed

text \<open>
  C10. A successful status update changes the status of the first order with the given
  identifier and nothing else: the other fields of that order and all other orders are as
  before, and the store has the same length.
\<close>

theorem set_status_frame:
  assumes "get_prop req_body ''status'' = Inr st" and "st \<in> recognized"
    and "ident \<in> order_id ` set store"
  shows "\<exists>i<length store.
      order_id (store ! i) = ident \<and> (\<forall>j<i. order_id (store ! j) \<noteq> ident) \<and>
      fst (set_status store ident req_body) = (200, OrderBody ((store ! i)\<lparr>status := st\<rparr>)) \<and>
      length (snd (set_status store ident req_body)) = length store \<and>
      (\<forall>j<length store. j \<noteq> i \<longrightarrow> snd (set_status store ident req_body) ! j = store ! j) \<and>
      status (snd (set_status store ident req_body) ! i) = st \<and>
      order_id (snd (set_status store ident req_body) ! i) = order_id (store ! i) \<and>
      userId (snd (set_status store ident req_body) ! i) = userId (store ! i) \<and>
      items (snd (set_status store ident req_body) ! i) = items (store ! i) \<and>
      totalAmount (snd (set_status store ident req_body) ! i) = totalAmount (store ! i) \<and>
      createdAt (snd (set_status store ident req_body) ! i) = createdAt (store ! i)"
proof -
  from assms(3) have "findIndex (\<lambda>x. order_id x = ident) store \<noteq> None"
    by (auto simp: findIndex_None)
  then obtain i where i: "findIndex (\<lambda>x. order_id x = ident) store = Some i"
    by auto
  from findIndex_Some[OF i] have lt: "i < length store" and oid: "order_id (store ! i) = ident"
    and first: "\<forall>j<i. order_id (store ! j) \<noteq> ident"
    by simp_all
  have res: "set_status store ident req_body =
      ((200, OrderBody ((store ! i)\<lparr>status := st\<rparr>)), store[i := (store ! i)\<lparr>status := st\<rparr>])"
    using assms(1,2) i lt
    by (simp add: set_status_def includes_validStatuses recognized_truthy)
  show ?thesis
    using lt oid first unfolding res by (intro exI[of _ i]) simp
qed

text \<open>The delivered order of the example store is set to shipped; the first order is untouched.\<close>

theorem set_status_shipped:
  "set_status example_store ''order-9'' (JObject [(''status'', JString ''shipped'')]) =
     ((200, OrderBody
        \<lparr>order_id = ''order-9'', userId = JString ''u2'',
         items = [\<lparr>bookId = JString ''book-1'', quantity = JNumber (Num 1),
                    price = JNumber (round_double (1299 / 100))\<rparr>],
         totalAmount = round_double (1299 / 100), status = JString ''shipped'',
         createdAt = ''2024-01-02T00:00:00.000Z''\<rparr>),
      orders_init ''order-1'' ''2024-01-01T00:00:00.000Z'' @
      [\<lparr>order_id = ''order-9'', userId = JString ''u2'',
         items = [\<lparr>bookId = JString ''book-1'', quantity = JNumber (Num 1),
                    price = JNumber (round_double (1299 / 100))\<rparr>],
         totalAmount = round_double (1299 / 100), status = JString ''shipped'',
         createdAt = ''2024-01-02T00:00:00.000Z''\<rparr>])"
proof -
  let ?r = "set_status example_store ''order-9'' (JObject [(''status'', JString ''shipped'')])"
  have "get_prop (JObject [(''status'', JString ''shipped'')]) ''status'' = Inr (JString ''shipped'')"
    and "JString ''shipped'' \<in> recognized"
    and "''order-9'' \<in> order_id ` set example_store"
    by (simp_all add: recognized_def example_store_def orders_init_def)
  from set_status_frame[OF this]
  obtain i where i: "i < length example_store" "order_id (example_store ! i) = ''order-9''"
    and r: "fst ?r = (200, OrderBody ((example_store ! i)\<lparr>status := JString ''shipped''\<rparr>))"
    and len: "length (snd ?r) = length example_store"
    and others: "\<forall>j<length example_store. j \<noteq> i \<longrightarrow> snd ?r ! j = example_store ! j"
    and fields: "status (snd ?r ! i) = JString ''shipped''"
      "order_id (snd ?r ! i) = order_id (example_store ! i)"
      "userId (snd ?r ! i) = userId (example_store ! i)"
      "items (snd ?r ! i) = items (example_store ! i)"
      "totalAmount (snd ?r ! i) = totalAmount (example_store ! i)"
      "createdAt (snd ?r ! i) = createdAt (example_store ! i)"
    by blast
  from i have i1: "i = 1"
    by (cases i) (auto simp: example_store_def orders_init_def)
  from len obtain x y where xy: "snd ?r = [x, y]"
    by (cases "snd ?r"; cases "tl (snd ?r)"; cases "tl (tl (snd ?r))")
       (auto simp: example_store_def orders_init_def)
  from others i1 xy have x: "x = hd example_store"
    by (auto simp: example_store_def orders_init_def)
  from fields i1 xy have y: "y = \<lparr>order_id = ''order-9'', userId = JString ''u2'',
         items = [\<lparr>bookId = JString ''book-1'', quantity = JNumber (Num 1),
                    price = JNumber (round_double (1299 / 100))\<rparr>],
         totalAmount = round_double (1299 / 100), status = JString ''shipped'',
         createdAt = ''2024-01-02T00:00:00.000Z''\<rparr>"
    by (cases y) (simp add: example_store_def orders_init_def)
  have "?r = (fst ?r, snd ?r)"
    by simp
  also have "\<dots> = ((200, OrderBody ((example_store ! 1)\<lparr>status := JString ''shipped''\<rparr>)), [x, y])"
    using r i1 xy by simp
  finally show ?thesis
    using x y by (simp add: example_store_def orders_init_def)
qed

subsection \<open>Cancelling\<close>

text \<open>
  C8. Cancelling an order that is in the store succeeds whatever its status: the status becomes
  cancelled, the order stays in the store (the identifiers in the store are the same, in the
  same order). Cancelling an absent identifier is answered with status 404.
\<close>

theorem cancel_any_status:
  "(ident \<in> order_id ` set store \<longrightarrow>
      (\<exists>i<length store. order_id (store ! i) = ident \<and>
         cancel store ident =
           ((200, MessageBody ''Order cancelled successfully''
                    ((store ! i)\<lparr>status := JString ''cancelled''\<rparr>)),
            store[i := (store ! i)\<lparr>status := JString ''cancelled''\<rparr>]))
      \<and> map order_id (snd (cancel store ident)) = map order_id store)
   \<and> (ident' \<notin> order_id ` set store' \<longrightarrow>
      cancel store' ident' = ((404, ErrorBody ''Order not found'' 404), store'))"
proof (rule conjI; rule impI)
  assume "ident \<in> order_id ` set store"
  then have "findIndex (\<lambda>x. order_id x = ident) store \<noteq> None"
    by (auto simp: findIndex_None)
  then obtain i where i: "findIndex (\<lambda>x. order_id x = ident) store = Some i"
    by auto
  from findIndex_Some[OF i] have lt: "i < length store" and oid: "order_id (store ! i) = ident"
    by simp_all
  have c: "cancel store ident =
           ((200, MessageBody ''Order cancelled successfully''
                    ((store ! i)\<lparr>status := JString ''cancelled''\<rparr>)),
            store[i := (store ! i)\<lparr>status := JString ''cancelled''\<rparr>])"
    using i lt by (simp add: cancel_def)
  have "map order_id (store[i := (store ! i)\<lparr>status := JString ''cancelled''\<rparr>]) = map order_id store"
    using lt by (simp add: map_update list_update_same_conv)
  with c lt oid show "(\<exists>i<length store. order_id (store ! i) = ident \<and>
         cancel store ident =
           ((200, MessageBody ''Order cancelled successfully''
                    ((store ! i)\<lparr>status := JString ''cancelled''\<rparr>)),
            store[i := (store ! i)\<lparr>status := JString ''cancelled''\<rparr>]))
      \<and> map order_id (snd (cancel store ident)) = map order_id store"
    by auto
next
  assume "ident' \<notin> order_id ` set store'"
  then have "findIndex (\<lambda>x. order_id x = ident') store' = None"
    by (auto simp: findIndex_None)
  then show "cancel store' ident' = ((404, ErrorBody ''Order not found'' 404), store')"
    by (simp add: cancel_def order_not_found_def)
qed

text \<open>The delivered order of the example store is cancelled.\<close>

theorem cancel_delivered_order:
  "cancel example_store ''order-9'' =
     ((200, MessageBody ''Order cancelled successfully''
        \<lparr>order_id = ''order-9'', userId = JString ''u2'',
         items = [\<lparr>bookId = JString ''book-1'', quantity = JNumber (Num 1),
                    price = JNumber (round_double (1299 / 100))\<rparr>],
         totalAmount = round_double (1299 / 100), status = JString ''cancelled'',
         createdAt = ''2024-01-02T00:00:00.000Z''\<rparr>),
      orders_init ''order-1'' ''2024-01-01T00:00:00.000Z'' @
      [\<lparr>order_id = ''order-9'', userId = JString ''u2'',
         items = [\<lparr>bookId = JString ''book-1'', quantity = JNumber (Num 1),
                    price = JNumber (round_double (1299 / 100))\<rparr>],
         totalAmount = round_double (1299 / 100), status = JString ''cancelled'',
         createdAt = ''2024-01-02T00:00:00.000Z''\<rparr>])
   \<and> map order_id (snd (cancel example_store ''order-9'')) = [''order-1'', ''order-9'']
   \<and> cancel example_store ''order-7'' = ((404, ErrorBody ''Order not found'' 404), example_store)"
proof -
  have present: "''order-9'' \<in> order_id ` set example_store"
    and absent: "''order-7'' \<notin> order_id ` set example_store"
    by (simp_all add: example_store_def orders_init_def)
  from cancel_any_status[where ident = "''order-9''" and store = example_store
      and ident' = "''order-7''" and store' = example_store] present absent
  obtain i where i: "i < length example_store" "order_id (example_store ! i) = ''order-9''"
      "cancel example_store ''order-9'' =
         ((200, MessageBody ''Order cancelled successfully''
                  ((example_store ! i)\<lparr>status := JString ''cancelled''\<rparr>)),
          example_store[i := (example_store ! i)\<lparr>status := JString ''cancelled''\<rparr>])"
    and ids: "map order_id (snd (cancel example_store ''order-9'')) = map order_id example_store"
    and nf: "cancel example_store ''order-7'' =
        ((404, ErrorBody ''Order not found'' 404), example_store)"
    by blast
  from i(1,2) have "i = 1"
    by (cases i) (auto simp: example_store_def orders_init_def)
  with i(3) ids nf show ?thesis
    by (simp add: example_store_def orders_init_def)
qed

subsection \<open>Listing\<close>

text \<open>
  C9, as stated, fails for a filter that is given with an empty value
  (\<^verbatim>\<open>GET /api/orders?userId=\<close>): the handler takes it as absent and returns every order, though
  no order has the empty user identifier.
\<close>

theorem empty_filter_counterexample:
  "list_orders (JString []) JUndefined example_store = (200, ListBody example_store)
   \<and> map userId example_store = [JString ''user-1'', JString ''u2'']"
  by (simp add: list_orders_def example_store_def orders_init_def)

text \<open>
  C9, amended. A list request returns, in the order of the store, exactly the orders that pass
  every filter with a non-empty value; a filter that is absent or empty imposes no constraint.
  In particular a non-empty user identifier \<open>U\<close> alone returns exactly the orders of \<open>U\<close>.
\<close>

theorem list_orders_filters:
  "(\<exists>ys. list_orders q_userId q_status store = (200, ListBody ys)
         \<and> ys = filter (matches q_userId q_status) store \<and> subseq ys store)
   \<and> (U \<noteq> [] \<longrightarrow>
        list_orders (JString U) JUndefined store' =
          (200, ListBody (filter (\<lambda>x. userId x = JString U) store')))"
proof (rule conjI)
  have "list_orders q_userId q_status store =
      (200, ListBody (filter (matches q_userId q_status) store))"
    by (auto simp: list_orders_def matches_def conj_commute intro!: filter_cong)
  then show "\<exists>ys. list_orders q_userId q_status store = (200, ListBody ys)
         \<and> ys = filter (matches q_userId q_status) store \<and> subseq ys store"
    by simp
next
  show "U \<noteq> [] \<longrightarrow>
        list_orders (JString U) JUndefined store' =
          (200, ListBody (filter (\<lambda>x. userId x = JString U) store'))"
    by (simp add: list_orders_def strict_eq_JString_right)
qed

text \<open>The orders of user u2 in the example store.\<close>

theorem list_orders_of_user:
  "list_orders (JString ''u2'') JUndefined example_store =
     (200, ListBody [\<lparr>order_id = ''order-9'', userId = JString ''u2'',
         items = [\<lparr>bookId = JString ''book-1'', quantity = JNumber (Num 1),
                    price = JNumber (round_double (1299 / 100))\<rparr>],
         totalAmount = round_double (1299 / 100), status = JString ''delivered'',
         createdAt = ''2024-01-02T00:00:00.000Z''\<rparr>])"
proof -
  have "''u2'' \<noteq> []"
    by simp
  with list_orders_filters[where U = "''u2''" and store' = example_store]
  have "list_orders (JString ''u2'') JUndefined example_store =
          (200, ListBody (filter (\<lambda>x. userId x = JString ''u2'') example_store))"
    by blast
  then show ?thesis
    by (simp add: example_store_def orders_init_def)
qed

section \<open>Properties of the health check\<close>

text \<open>
  C3, as stated, fails in its last part: a probe that is started and does not complete (it
  throws or runs into the timeout) ends in the catch block of its own try statement, and the
  backend is reported unhealthy, not unknown. Here the probe of the users service fails.
\<close>

theorem failed_probe_counterexample:
  "users_probe example_health_env = Rejected
   \<and> users (services (snd (health example_health_env))) = ''unhealthy''
   \<and> users (services (snd (health example_health_env))) \<noteq> ''unknown''"
  by (simp add: health_def example_health_env_def probe_def Let_def)

text \<open>
  C3, amended. The answer always has status 200 and reports the gateway as healthy. A backend
  is reported unhealthy exactly when its probe was made and failed (a response outside 2xx, a
  network error, an exception or the timeout), healthy exactly when its probe was made and
  succeeded, and unknown exactly when no probe was made at all, which happens only when the
  HTTP client cannot be loaded, and then for all three backends at once.
\<close>

theorem health_statuses:
  "fst (health h) = 200 \<and> gateway (snd (health h)) = ''healthy''
   \<and> probed h books_probe books \<and> probed h users_probe users \<and> probed h orders_probe orders
   \<and> (\<not> axios_loads h \<longrightarrow>
        services (snd (health h)) =
          \<lparr>books = ''unknown'', users = ''unknown'', orders = ''unknown''\<rparr>)"
  by (cases "books_probe h"; cases "users_probe h"; cases "orders_probe h")
     (simp_all add: health_def probed_def probe_def Let_def)

text \<open>The users service is down; and the same request when the HTTP client cannot be loaded.\<close>

theorem health_example:
  "health example_health_env =
     (200, \<lparr>gateway = ''healthy'', timestamp = ''2024-01-01T00:00:00.000Z'',
            services = \<lparr>books = ''healthy'', users = ''unhealthy'', orders = ''healthy''\<rparr>\<rparr>)
   \<and> services (snd (health (example_health_env\<lparr>axios_loads := False\<rparr>))) =
       \<lparr>books = ''unknown'', users = ''unknown'', orders = ''unknown''\<rparr>"
proof -
  have loads: "axios_loads example_health_env"
    and b: "\<exists>d. books_probe example_health_env = Resolved d"
    and u: "users_probe example_health_env = Rejected"
    and o: "\<exists>d. orders_probe example_health_env = Resolved d"
    by (simp_all add: example_health_env_def)
  from health_statuses[of example_health_env] loads b u o
  have "fst (health example_health_env) = 200"
    and "gateway (snd (health example_health_env)) = ''healthy''"
    and "books (services (snd (health example_health_env))) = ''healthy''"
    and "users (services (snd (health example_health_env))) = ''unhealthy''"
    and "orders (services (snd (health example_health_env))) = ''healthy''"
    by (simp_all add: probed_def)
  moreover have "timestamp (snd (health example_health_env)) = ''2024-01-01T00:00:00.000Z''"
    by (simp add: health_def example_health_env_def Let_def)
  ultimately have first: "health example_health_env =
     (200, \<lparr>gateway = ''healthy'', timestamp = ''2024-01-01T00:00:00.000Z'',
            services = \<lparr>books = ''healthy'', users = ''unhealthy'', orders = ''healthy''\<rparr>\<rparr>)"
    by (cases "health example_health_env"; cases "snd (health example_health_env)";
        cases "services (snd (health example_health_env))") simp
  have "\<not> axios_loads (example_health_env\<lparr>axios_loads := False\<rparr>)"
    by simp
  with health_statuses[of "example_health_env\<lparr>axios_loads := False\<rparr>"]
  have "books (services (snd (health (example_health_env\<lparr>axios_loads := False\<rparr>)))) = ''unknown''"
    and "users (services (snd (health (example_health_env\<lparr>axios_loads := False\<rparr>)))) = ''unknown''"
    and "orders (services (snd (health (example_health_env\<lparr>axios_loads := False\<rparr>)))) = ''unknown''"
    by (simp_all add: probed_def)
  then have "services (snd (health (example_health_env\<lparr>axios_loads := False\<rparr>))) =
       \<lparr>books = ''unknown'', users = ''unknown'', orders = ''unknown''\<rparr>"
    by (cases "services (snd (health (example_health_env\<lparr>axios_loads := False\<rparr>)))") simp
  with first show ?thesis
    by simp
qed

end
